theory Spec2Isabelle
  imports Complex_Main "HOL-Library.Sublist" "HOL-Library.Multiset"
begin

section \<open>Python values and how they are rendered\<close>

text \<open>
  A Python \<open>str\<close> is modelled as a \<open>string\<close> whose characters are the code points below
  256, one \<open>char\<close> each. Formatting a value into a template renders a \<open>str\<close> as itself
  and a list of dictionaries through \<open>repr\<close>: brackets and braces, the items separated by
  a comma and a space, and every string quoted and escaped.
\<close>

definition nl :: string where
  "nl = [CHR 0x0A]"

definition squote :: char where
  "squote = CHR 0x27"

definition dquote :: char where
  "dquote = CHR 0x22"

definition backslash :: char where
  "backslash = CHR 0x5C"

definition hexdigit :: "nat \<Rightarrow> char" where
  "hexdigit n = ''0123456789abcdef'' ! (n mod 16)"

definition isprintable :: "char \<Rightarrow> bool" where
  \<comment> \<open>\<open>str.isprintable\<close> on the code points below 256: the ASCII range from the space to
      the tilde, and Latin-1 from 0xA1 on without the soft hyphen 0xAD.\<close>
  "isprintable c =
     (let n = (of_char c :: nat) in (32 \<le> n \<and> n < 127) \<or> (161 \<le> n \<and> n \<noteq> 173))"

definition repr_char :: "char \<Rightarrow> char \<Rightarrow> string" where
  \<comment> \<open>one character of \<open>repr(s)\<close>, where \<open>q\<close> is the quote chosen for the whole string\<close>
  "repr_char q c =
     (if c = q \<or> c = backslash then [backslash, c]
      else if c = CHR 0x09 then [backslash, CHR ''t'']
      else if c = CHR 0x0A then [backslash, CHR ''n'']
      else if c = CHR 0x0D then [backslash, CHR ''r'']
      else if isprintable c then [c]
      else [backslash, CHR ''x'', hexdigit (of_char c div 16), hexdigit (of_char c)])"

definition repr_quote :: "string \<Rightarrow> char" where
  \<comment> \<open>double quotes only when the string has a single quote and no double quote\<close>
  "repr_quote s = (if squote \<in> set s \<and> dquote \<notin> set s then dquote else squote)"

definition py_repr :: "string \<Rightarrow> string" where
  "py_repr s = repr_quote s # concat (map (repr_char (repr_quote s)) s) @ [repr_quote s]"

fun join :: "string \<Rightarrow> string list \<Rightarrow> string" where
  "join sep [] = []"
| "join sep [x] = x"
| "join sep (x # y # ys) = x @ sep @ join sep (y # ys)"

type_synonym pydict = "(string \<times> string) list"

definition repr_item :: "string \<times> string \<Rightarrow> string" where
  "repr_item kv = py_repr (fst kv) @ '': '' @ py_repr (snd kv)"

definition repr_dict :: "pydict \<Rightarrow> string" where
  "repr_dict d = ''{'' @ join '', '' (map repr_item d) @ ''}''"

definition repr_list :: "pydict list \<Rightarrow> string" where
  "repr_list ds = ''['' @ join '', '' (map repr_dict ds) @ '']''"

datatype pyobj = Str string | DictList "pydict list"

fun py_str :: "pyobj \<Rightarrow> string" where
  "py_str (Str s) = s"
| "py_str (DictList ds) = repr_list ds"

section \<open>Exceptions\<close>

datatype exn =
    BackendFailure string
  | ParseFailure string string
  | KeyError string
  | ValueError string

text \<open>
  \<open>BackendFailure m\<close>: the call of the language model raised, \<open>m\<close> is the text of what it
  raised. \<open>ParseFailure reason raw_text\<close>: the output parser rejected \<open>raw_text\<close>.
  \<open>KeyError\<close> and \<open>ValueError\<close> are what \<open>str.format\<close> raises.
\<close>

fun str_exn :: "exn \<Rightarrow> string" where
  "str_exn (BackendFailure m) = m"
| "str_exn (ParseFailure reason raw_text) = reason"
| "str_exn (KeyError k) = py_repr k"
| "str_exn (ValueError m) = m"

section \<open>Formatting a template with named fields\<close>

text \<open>
  Modelled from the spec: the method \<open>format\<close> of the library's \<open>PromptTemplate\<close>, which
  is not in the repository. The specification has the prompt rendered by textual
  substitution of the values into the fixed template, with no escaping of template
  delimiters that occur in a value. This is Python's \<open>str.format\<close> on named fields: the
  template is scanned once from left to right, \<open>{{\<close> and \<open>}}\<close> stand for one brace,
  \<open>{key}\<close> is replaced by the value of \<open>key\<close>, and a substituted value is copied as it
  is and never scanned again. The text between the braces is the key as it stands (the
  fields of \<open>hr_template\<close> are plain names). A brace without its partner is a
  \<open>ValueError\<close>, a key without a value a \<open>KeyError\<close>.
\<close>

fun format_text :: "(string \<Rightarrow> string option) \<Rightarrow> string \<Rightarrow> exn + string"
  and format_field :: "(string \<Rightarrow> string option) \<Rightarrow> string \<Rightarrow> string \<Rightarrow> exn + string" where
  "format_text kw [] = Inr []"
| "format_text kw (c # cs) =
     (if c = CHR ''{'' then
        (case cs of
           [] \<Rightarrow> Inl (ValueError (''Single '' @ [squote] @ ''{'' @ [squote] @ '' encountered in format string''))
         | d # ds \<Rightarrow>
             if d = CHR ''{'' then map_sum id ((#) c) (format_text kw ds)
             else format_field kw [] cs)
      else if c = CHR ''}'' then
        (case cs of
           [] \<Rightarrow> Inl (ValueError (''Single '' @ [squote] @ ''}'' @ [squote] @ '' encountered in format string''))
         | d # ds \<Rightarrow>
             if d = CHR ''}'' then map_sum id ((#) c) (format_text kw ds)
             else Inl (ValueError (''Single '' @ [squote] @ ''}'' @ [squote] @ '' encountered in format string'')))
      else map_sum id ((#) c) (format_text kw cs))"
| "format_field kw key [] =
     Inl (ValueError (''expected '' @ [squote] @ ''}'' @ [squote] @ '' before end of string''))"
| "format_field kw key (c # cs) =
     (if c = CHR ''}'' then
        (case kw key of
           None \<Rightarrow> Inl (KeyError key)
         | Some v \<Rightarrow> map_sum id ((@) v) (format_text kw cs))
      else format_field kw (key @ [c]) cs)"

section \<open>The output schema (class \<open>QNASummary\<close>)\<close>

record QNASummary =
  name :: string
  overall_impression :: string
  chance_of_getting_the_job :: string
  most_relevant_position :: string
  personal_capability :: string
  psychological_capability :: string
  technical_capability :: string
  final_thoughts :: string

text \<open>
  The class as the output parser sees it: its fields in declaration order, each with the
  description given to \<open>Field\<close>.
\<close>

definition QNASummary_fields :: "(string \<times> string) list" where
  "QNASummary_fields =
    [(''name'', ''name of the candidate''),
     (''overall_impression'', ''Briefly describe the candidate's general demeanor, communication skills, and presentation during the interview.''),
     (''chance_of_getting_the_job'', ''Assess the candidate's overall suitability for the position based on their qualifications, experience, and interview performance.''),
     (''most_relevant_position'', ''If the candidate applied for multiple positions, suggest the most suitable one based on their skills and the interview discussion.''),
     (''personal_capability'', ''Summarize the candidate's soft skills, such as teamwork, communication, leadership, and problem-solving abilities, as demonstrated during the interview.''),
     (''psychological_capability'', ''Evaluate the candidate's stress tolerance, adaptability, and emotional intelligence based on their responses and overall demeanor.''),
     (''technical_capability'', ''Assess the candidate's technical skills and knowledge relevant to the specific job requirements. Briefly summarize their answers to technical questions and highlight areas of expertise or potential gaps.''),
     (''final_thoughts'', ''Briefly summarize your overall impression of the candidate and their potential fit within the company culture. Provide any concluding remarks or recommendations for further evaluation if needed.'')]"

definition spec_field_order :: "string list" where
  \<comment> \<open>the enumeration of the specification's data model, to compare the class with\<close>
  "spec_field_order =
    [''name'', ''overall_impression'', ''chance_of_getting_the_job'', ''most_relevant_position'',
     ''personal_capability'', ''psychological_capability'', ''technical_capability'',
     ''final_thoughts'']"

definition dict :: "QNASummary \<Rightarrow> pydict" where
  \<comment> \<open>\<open>result.dict()\<close>\<close>
  "dict r =
    [(''name'', name r),
     (''overall_impression'', overall_impression r),
     (''chance_of_getting_the_job'', chance_of_getting_the_job r),
     (''most_relevant_position'', most_relevant_position r),
     (''personal_capability'', personal_capability r),
     (''psychological_capability'', psychological_capability r),
     (''technical_capability'', technical_capability r),
     (''final_thoughts'', final_thoughts r)]"

section \<open>The library objects the analyzer is built from\<close>

text \<open>
  \<open>VertexAI\<close>, \<open>PydanticOutputParser\<close> and \<open>PromptTemplate\<close> are objects of the langchain
  library. The records hold what the constructor calls of \<open>__init__\<close> store in them. The
  float literal \<open>0.3\<close> is the decimal it denotes.
\<close>

record VertexAI =
  model_name :: string
  max_output_tokens :: int
  temperature :: real

record PydanticOutputParser =
  pydantic_object :: "(string \<times> string) list"

record PromptTemplate =
  input_variables :: "string list"
  template :: string
  partial_variables :: "(string \<times> string) list"

text \<open>
  The two methods of the output parser, \<open>get_format_instructions\<close> and \<open>parse\<close>, belong
  to the library and are not part of this repository: the analyzer takes them as
  parameters and is stated for any pair of them.
\<close>

record langchain =
  get_format_instructions :: "PydanticOutputParser \<Rightarrow> string"
  parse :: "PydanticOutputParser \<Rightarrow> string \<Rightarrow> exn + QNASummary"

definition PromptTemplate_format :: "PromptTemplate \<Rightarrow> (string \<times> pyobj) list \<Rightarrow> exn + string" where
  \<comment> \<open>the keyword arguments override the partial variables; every value is rendered by
      \<open>str\<close>, as \<open>format\<close> with an empty format specification does for a string and a list\<close>
  "PromptTemplate_format pt kwargs =
     format_text (map_of (map (\<lambda>kv. (fst kv, py_str (snd kv))) kwargs @ partial_variables pt))
       (template pt)"

section \<open>The model backend\<close>

text \<open>
  Modelled from the spec: the call of the \<open>VertexAI\<close> object, which is library code that
  reaches a remote service. The specification treats the backend as an opaque
  collaborator that completes a prompt under a model name, a token limit and a
  temperature, and returns a text or fails with an error of its own.
  \<open>reply w n cfg prompt\<close> is what it does on the
  call number \<open>n\<close>: \<open>Inr text\<close> when it returns \<open>text\<close>, \<open>Inl m\<close> when the call raises (\<open>m\<close> is
  the text of the exception). The answer may depend on the call number, so two calls with
  the same prompt need not agree. \<open>calls\<close> is the log of the outbound calls made so far.
\<close>

record world =
  calls :: "(VertexAI \<times> string) list"
  reply :: "nat \<Rightarrow> VertexAI \<Rightarrow> string \<Rightarrow> string + string"

definition VertexAI_call :: "VertexAI \<Rightarrow> string \<Rightarrow> world \<Rightarrow> (exn + string) \<times> world" where
  "VertexAI_call cfg prompt w =
     (case reply w (length (calls w)) cfg prompt of
        Inl m \<Rightarrow> Inl (BackendFailure m)
      | Inr text \<Rightarrow> Inr text,
      w\<lparr>calls := calls w @ [(cfg, prompt)]\<rparr>)"

section \<open>\<open>core/analyzer.py\<close>: class \<open>HRInterviewAnalyzer\<close>\<close>

record HRInterviewAnalyzer =
  llm :: VertexAI
  parser :: PydanticOutputParser
  hr_template :: string
  prompt_template :: PromptTemplate

definition hr_template_text :: string where
  "hr_template_text =
     nl @ ''            Here is a transcript of an HR interview for the {job_title} position at {company_name}. The candidate is {candidate_name}. Please analyze the interview and provide a bulleted summary with the following sections:''
     @ nl @ ''            {format_instructions}''
     @ nl @ ''            ---''
     @ nl
     @ nl @ ''            {interview_qna}''
     @ nl
     @ nl @ ''            ---''
     @ nl @ ''            ''"

definition HRInterviewAnalyzer_init :: "langchain \<Rightarrow> string \<Rightarrow> int \<Rightarrow> real \<Rightarrow> HRInterviewAnalyzer" where
  "HRInterviewAnalyzer_init L mn mot temp =
     (let p = \<lparr>pydantic_object = QNASummary_fields\<rparr> in
      \<lparr>llm = \<lparr>model_name = mn, max_output_tokens = mot, temperature = temp\<rparr>,
       parser = p,
       hr_template = hr_template_text,
       prompt_template =
         \<lparr>input_variables = [''job_title'', ''company_name'', ''candidate_name'', ''interview_qna''],
          template = hr_template_text,
          partial_variables = [(''format_instructions'', get_format_instructions L p)]\<rparr>\<rparr>)"

definition HRInterviewAnalyzer_default :: "langchain \<Rightarrow> HRInterviewAnalyzer" where
  \<comment> \<open>\<open>HRInterviewAnalyzer()\<close>: every parameter takes its default\<close>
  "HRInterviewAnalyzer_default L = HRInterviewAnalyzer_init L ''code-bison'' 1000 (3 / 10)"

definition input_data :: "HRInterviewAnalyzer \<Rightarrow> string \<Rightarrow> string \<Rightarrow> string \<Rightarrow> pyobj \<Rightarrow> exn + string" where
  \<comment> \<open>the prompt: \<open>self.prompt_template.format(...)\<close> with the four keyword arguments\<close>
  "input_data self jt cn cand qna =
     PromptTemplate_format (prompt_template self)
       [(''job_title'', Str jt), (''company_name'', Str cn),
        (''candidate_name'', Str cand), (''interview_qna'', qna)]"

definition analyze_interview ::
  "langchain \<Rightarrow> HRInterviewAnalyzer \<Rightarrow> string \<Rightarrow> string \<Rightarrow> string \<Rightarrow> pyobj \<Rightarrow> world
     \<Rightarrow> (exn + QNASummary) \<times> world" where
  "analyze_interview L self jt cn cand qna w =
     (case input_data self jt cn cand qna of
        Inl e \<Rightarrow> (Inl e, w)
      | Inr p \<Rightarrow>
          (case VertexAI_call (llm self) p w of
             (Inl e, w') \<Rightarrow> (Inl e, w')
           | (Inr text, w') \<Rightarrow> (parse L (parser self) text, w')))"

section \<open>\<open>api/main.py\<close>: the endpoint \<open>/get_summary\<close>\<close>

record QNA =
  question :: string
  answer :: string

record HRInterviewInput =
  candidate_name :: string
  job_title :: string
  company_name :: string
  interview_qna :: "QNA list"

record HTTPException =
  status_code :: int
  detail :: string

text \<open>
  The module holds one analyzer, built when the module is loaded; the state of the
  application is this object and the backend behind it.
\<close>

record app =
  analyzer :: HRInterviewAnalyzer
  backend :: world

definition app_init :: "langchain \<Rightarrow> world \<Rightarrow> app" where
  "app_init L w = \<lparr>analyzer = HRInterviewAnalyzer_default L, backend = w\<rparr>"

definition qna_dict :: "QNA \<Rightarrow> pydict" where
  "qna_dict item = [(''question'', question item), (''answer'', answer item)]"

definition interview_qna_list :: "HRInterviewInput \<Rightarrow> pydict list" where
  "interview_qna_list inp = map qna_dict (interview_qna inp)"

definition get_summary :: "langchain \<Rightarrow> HRInterviewInput \<Rightarrow> app \<Rightarrow> (HTTPException + pydict) \<times> app" where
  "get_summary L inp s =
     (case analyze_interview L (analyzer s) (job_title inp) (company_name inp)
             (candidate_name inp) (DictList (interview_qna_list inp)) (backend s) of
        (Inr result, w') \<Rightarrow> (Inr (dict result), s\<lparr>backend := w'\<rparr>)
      | (Inl e, w') \<Rightarrow> (Inl \<lparr>status_code = 500, detail = str_exn e\<rparr>, s\<lparr>backend := w'\<rparr>))"

text \<open>Requests are served one after another, each on the state the previous one left.\<close>

fun serve :: "langchain \<Rightarrow> HRInterviewInput list \<Rightarrow> app \<Rightarrow> (HTTPException + pydict) list \<times> app" where
  "serve L [] s = ([], s)"
| "serve L (r # rs) s =
     (case get_summary L r s of
        (x, s') \<Rightarrow> (case serve L rs s' of (xs, s'') \<Rightarrow> (x # xs, s'')))"

section \<open>The parser of the Schema Descriptor\<close>

text \<open>
  Modelled from the spec: the method \<open>parse\<close> of the output parser, which is code of the
  langchain library and not in the repository. The specification describes it as a strict
  label-matching extractor over a labelled structure with one field per line: each of the
  eight fields is looked up by its label, whatever the order of the lines, the content is
  the rest of the line after the label, and a missing label is a \<open>ParseFailure\<close> that
  carries the reason and the raw text. Nothing is guessed or defaulted.
\<close>

fun split_lines :: "string \<Rightarrow> string list" where
  "split_lines [] = [[]]"
| "split_lines (c # cs) =
     (if c = CHR 0x0A then [] # split_lines cs
      else (case split_lines cs of [] \<Rightarrow> [[c]] | l # ls \<Rightarrow> (c # l) # ls))"

definition labelled :: "string \<Rightarrow> string \<Rightarrow> string option" where
  "labelled l line =
     (if prefix (l @ '': '') line then Some (drop (length l + 2) line) else None)"

fun lookup_label :: "string \<Rightarrow> string list \<Rightarrow> string option" where
  "lookup_label l [] = None"
| "lookup_label l (x # xs) = (case labelled l x of Some c \<Rightarrow> Some c | None \<Rightarrow> lookup_label l xs)"

definition required_field :: "string \<Rightarrow> string \<Rightarrow> exn + string" where
  "required_field raw_text l =
     (case lookup_label l (split_lines raw_text) of
        None \<Rightarrow> Inl (ParseFailure (''missing field '' @ l) raw_text)
      | Some c \<Rightarrow> Inr c)"

fun and_then :: "exn + 'a \<Rightarrow> ('a \<Rightarrow> exn + 'b) \<Rightarrow> exn + 'b" where
  "and_then (Inl e) f = Inl e"
| "and_then (Inr x) f = f x"

definition spec_parse :: "string \<Rightarrow> exn + QNASummary" where
  "spec_parse raw_text =
     and_then (required_field raw_text ''name'') (\<lambda>f1.
     and_then (required_field raw_text ''overall_impression'') (\<lambda>f2.
     and_then (required_field raw_text ''chance_of_getting_the_job'') (\<lambda>f3.
     and_then (required_field raw_text ''most_relevant_position'') (\<lambda>f4.
     and_then (required_field raw_text ''personal_capability'') (\<lambda>f5.
     and_then (required_field raw_text ''psychological_capability'') (\<lambda>f6.
     and_then (required_field raw_text ''technical_capability'') (\<lambda>f7.
     and_then (required_field raw_text ''final_thoughts'') (\<lambda>f8.
       Inr \<lparr>name = f1, overall_impression = f2, chance_of_getting_the_job = f3,
            most_relevant_position = f4, personal_capability = f5,
            psychological_capability = f6, technical_capability = f7,
            final_thoughts = f8\<rparr>))))))))"

definition labelled_lines :: "QNASummary \<Rightarrow> string list" where
  \<comment> \<open>the eight labelled lines of a response whose fields are those of \<open>r\<close>\<close>
  "labelled_lines r = map (\<lambda>kv. fst kv @ '': '' @ snd kv) (dict r)"

definition missing_field :: "string \<Rightarrow> bool" where
  \<comment> \<open>some required label starts no line of the text\<close>
  "missing_field raw_text =
     (\<exists>l \<in> set spec_field_order. \<forall>x \<in> set (split_lines raw_text). \<not> prefix (l @ '': '') x)"

section \<open>Stubs for concrete runs\<close>

text \<open>
  A library stub whose parser accepts the text \<open>ok\<close> only, two backends that always fail
  or always answer with unlabelled text, and the request of the end-to-end scenario.
\<close>

definition stub_summary :: QNASummary where
  "stub_summary =
     \<lparr>name = ''Jane Doe'', overall_impression = ''calm'', chance_of_getting_the_job = ''high'',
      most_relevant_position = ''Backend Engineer'', personal_capability = ''good'',
      psychological_capability = ''stable'', technical_capability = ''strong'',
      final_thoughts = ''hire''\<rparr>"

definition stub_langchain :: langchain where
  "stub_langchain =
     \<lparr>get_format_instructions = (\<lambda>p. ''FORMAT''),
      parse = (\<lambda>p text. if text = ''ok'' then Inr stub_summary
                          else Inl (ParseFailure ''Failed to parse'' text))\<rparr>"

definition failing_world :: world where
  "failing_world = \<lparr>calls = [], reply = (\<lambda>n cfg p. Inl ''quota exceeded'')\<rparr>"

definition unlabelled_world :: world where
  "unlabelled_world = \<lparr>calls = [], reply = (\<lambda>n cfg p. Inr ''Sorry, I cannot help.'')\<rparr>"

definition jane :: HRInterviewInput where
  "jane =
     \<lparr>candidate_name = ''Jane Doe'', job_title = ''Backend Engineer'', company_name = ''Acme'',
      interview_qna =
        [\<lparr>question = ''Tell me about yourself'',
          answer = ''I am a backend engineer with 5 years experience.''\<rparr>]\<rparr>"

section \<open>The prompt of an analyzer built by \<open>__init__\<close>\<close>

lemma format_hr_template:
  assumes "kw ''job_title'' = Some jt" and "kw ''company_name'' = Some cn"
    and "kw ''candidate_name'' = Some cand" and "kw ''format_instructions'' = Some fi"
    and "kw ''interview_qna'' = Some tr"
  shows "format_text kw hr_template_text =
    Inr (nl @ ''            Here is a transcript of an HR interview for the '' @ jt
     @ '' position at '' @ cn @ ''. The candidate is '' @ cand
     @ ''. Please analyze the interview and provide a bulleted summary with the following sections:''
     @ nl @ ''            '' @ fi
     @ nl @ ''            ---''
     @ nl
     @ nl @ ''            '' @ tr
     @ nl
     @ nl @ ''            ---''
     @ nl @ ''            '')"
  using assms by (simp add: hr_template_text_def nl_def)

lemma init_fields:
  "llm (HRInterviewAnalyzer_init L mn mot temp) =
     \<lparr>model_name = mn, max_output_tokens = mot, temperature = temp\<rparr>"
  "parser (HRInterviewAnalyzer_init L mn mot temp) = \<lparr>pydantic_object = QNASummary_fields\<rparr>"
  "hr_template (HRInterviewAnalyzer_init L mn mot temp) = hr_template_text"
  "template (prompt_template (HRInterviewAnalyzer_init L mn mot temp)) = hr_template_text"
  "partial_variables (prompt_template (HRInterviewAnalyzer_init L mn mot temp)) =
     [(''format_instructions'', get_format_instructions L \<lparr>pydantic_object = QNASummary_fields\<rparr>)]"
  by (simp_all add: HRInterviewAnalyzer_init_def Let_def)

lemma input_data_init:
  "input_data (HRInterviewAnalyzer_init L mn mot temp) jt cn cand qna =
    Inr (nl @ ''            Here is a transcript of an HR interview for the '' @ jt
     @ '' position at '' @ cn @ ''. The candidate is '' @ cand
     @ ''. Please analyze the interview and provide a bulleted summary with the following sections:''
     @ nl @ ''            '' @ get_format_instructions L \<lparr>pydantic_object = QNASummary_fields\<rparr>
     @ nl @ ''            ---''
     @ nl
     @ nl @ ''            '' @ py_str qna
     @ nl
     @ nl @ ''            ---''
     @ nl @ ''            '')"
  unfolding input_data_def PromptTemplate_format_def init_fields
  by (rule format_hr_template) simp_all

lemma input_data_init_ex:
  "\<exists>p. input_data (HRInterviewAnalyzer_init L mn mot temp) jt cn cand qna = Inr p"
  using input_data_init by blast

lemma input_data_init_grouped:
  "input_data (HRInterviewAnalyzer_init L mn mot temp) jt cn cand qna =
    Inr ((nl @ ''            Here is a transcript of an HR interview for the '' @ jt
     @ '' position at '' @ cn @ ''. The candidate is '' @ cand
     @ ''. Please analyze the interview and provide a bulleted summary with the following sections:''
     @ nl @ ''            '') @ get_format_instructions L \<lparr>pydantic_object = QNASummary_fields\<rparr>
     @ (nl @ ''            ---'' @ nl @ nl @ ''            '') @ py_str qna
     @ (nl @ nl @ ''            ---'' @ nl @ ''            ''))"
  by (simp add: input_data_init)

lemma input_data_init_transcript:
  "\<exists>pre post. input_data (HRInterviewAnalyzer_init L mn mot temp) jt cn cand qna =
     Inr (pre @ py_str qna @ post)"
  unfolding input_data_init_grouped
  by (metis append.assoc)

lemma input_data_init_instructions:
  "\<exists>pre post. input_data (HRInterviewAnalyzer_init L mn mot temp) jt cn cand qna =
     Inr (pre @ get_format_instructions L \<lparr>pydantic_object = QNASummary_fields\<rparr> @ post)"
  unfolding input_data_init_grouped
  by blast

section \<open>One call of \<open>analyze_interview\<close>, and a run of requests\<close>

lemma analyze_interview_sent:
  assumes "input_data self jt cn cand qna = Inr p"
  shows "analyze_interview L self jt cn cand qna w =
    (case reply w (length (calls w)) (llm self) p of
       Inl m \<Rightarrow> Inl (BackendFailure m)
     | Inr text \<Rightarrow> parse L (parser self) text,
     w\<lparr>calls := calls w @ [(llm self, p)]\<rparr>)"
  using assms by (simp add: analyze_interview_def VertexAI_call_def split: sum.splits)

lemma get_summary_state:
  assumes "input_data (analyzer s) (job_title inp) (company_name inp) (candidate_name inp)
             (DictList (interview_qna_list inp)) = Inr p"
  shows "snd (get_summary L inp s) =
           s\<lparr>backend := (backend s)\<lparr>calls := calls (backend s) @ [(llm (analyzer s), p)]\<rparr>\<rparr>"
  by (simp add: get_summary_def analyze_interview_sent [OF assms] split: sum.splits)

lemma serve_state:
  assumes "analyzer s = HRInterviewAnalyzer_init L mn mot temp"
  shows "analyzer (snd (serve L' rs s)) = analyzer s \<and>
         reply (backend (snd (serve L' rs s))) = reply (backend s) \<and>
         map fst (calls (backend (snd (serve L' rs s)))) =
           map fst (calls (backend s)) @ replicate (length rs) (llm (analyzer s))"
  using assms
proof (induction rs arbitrary: s)
  case Nil
  then show ?case by simp
next
  case (Cons r rs)
  obtain p where p: "input_data (analyzer s) (job_title r) (company_name r) (candidate_name r)
             (DictList (interview_qna_list r)) = Inr p"
    using input_data_init_ex Cons.prems by metis
  let ?s = "snd (get_summary L' r s)"
  have s': "?s = s\<lparr>backend := (backend s)\<lparr>calls := calls (backend s) @ [(llm (analyzer s), p)]\<rparr>\<rparr>"
    by (rule get_summary_state [OF p])
  have a: "analyzer ?s = HRInterviewAnalyzer_init L mn mot temp"
    using Cons.prems by (simp add: s')
  have step: "snd (serve L' (r # rs) s) = snd (serve L' rs ?s)"
    by (simp split: prod.splits)
  show ?case
    unfolding step using Cons.IH [OF a] by (simp add: s' replicate_app_Cons_same)
qed

section \<open>The transcript block\<close>

lemma py_repr_question: "py_repr ''question'' = squote # ''question'' @ [squote]"
  by (simp add: py_repr_def repr_quote_def squote_def dquote_def repr_char_def isprintable_def
      backslash_def)

lemma py_repr_answer: "py_repr ''answer'' = squote # ''answer'' @ [squote]"
  by (simp add: py_repr_def repr_quote_def squote_def dquote_def repr_char_def isprintable_def
      backslash_def)

lemma repr_dict_qna:
  "repr_dict (qna_dict item) =
     ''{'question': '' @ py_repr (question item) @ '', 'answer': '' @ py_repr (answer item) @ ''}''"
  by (simp add: qna_dict_def repr_dict_def repr_item_def py_repr_question py_repr_answer squote_def)

lemma transcript_joined:
  "py_str (DictList (interview_qna_list inp)) =
     ''['' @ join '', '' (map (\<lambda>item. repr_dict (qna_dict item)) (interview_qna inp)) @ '']''"
  by (simp add: repr_list_def interview_qna_list_def o_def)

lemma transcript_units:
  "py_str (DictList (interview_qna_list inp)) =
     ''['' @ join '', ''
       (map (\<lambda>item. ''{'question': '' @ py_repr (question item) @ '', 'answer': ''
                      @ py_repr (answer item) @ ''}'') (interview_qna inp)) @ '']''"
  unfolding transcript_joined repr_dict_qna ..

subsection \<open>The rendering of a string can be read back\<close>

lemma repr_quote_cases: "repr_quote s = squote \<or> repr_quote s = dquote"
  by (simp add: repr_quote_def)

lemma hexdigit_inj:
  assumes "hexdigit a = hexdigit b"
  shows "a mod 16 = b mod 16"
proof -
  have d: "distinct ''0123456789abcdef''" by simp
  have l: "length ''0123456789abcdef'' = 16" by simp
  have "a mod 16 < length ''0123456789abcdef''" "b mod 16 < length ''0123456789abcdef''"
    unfolding l by simp_all
  with d assms show ?thesis
    unfolding hexdigit_def by (simp only: nth_eq_iff_index_eq)
qed

lemma char_from_hex:
  assumes "hexdigit (of_char c div 16) = hexdigit (of_char c' div 16)"
    and "hexdigit (of_char c) = hexdigit (of_char c')"
  shows "c = c'"
proof -
  let ?n = "of_char c :: nat" and ?m = "of_char c' :: nat"
  have b: "?n < 256" "?m < 256" by simp_all
  have 1: "(?n div 16) mod 16 = (?m div 16) mod 16" using assms(1) by (rule hexdigit_inj)
  have 2: "?n mod 16 = ?m mod 16" using assms(2) by (rule hexdigit_inj)
  have "?n div 16 < 16" "?m div 16 < 16"
    using b by (simp_all add: less_mult_imp_div_less)
  then have "?n div 16 = ?m div 16" using 1 by simp
  then have "?n = ?m" using 2 by (metis div_mult_mod_eq)
  then show ?thesis by simp
qed

lemma repr_char_hd:
  assumes "q = squote \<or> q = dquote"
  shows "\<exists>h t. repr_char q c = h # t \<and> h \<noteq> q"
  using assms by (auto simp: repr_char_def squote_def dquote_def backslash_def)

lemma repr_char_prefix_free:
  assumes "q = squote \<or> q = dquote"
    and "repr_char q c @ x = repr_char q c' @ y"
  shows "c = c' \<and> x = y"
proof -
  have hex: "c = c'"
    if "hexdigit (of_char c div 16) = hexdigit (of_char c' div 16)"
      and "hexdigit (of_char c) = hexdigit (of_char c')"
    using that by (rule char_from_hex)
  show ?thesis
    using assms hex
    by (auto simp: repr_char_def squote_def dquote_def backslash_def split: if_splits)
qed

lemma repr_body_prefix_free:
  assumes "q = squote \<or> q = dquote"
  shows "concat (map (repr_char q) s) @ q # x = concat (map (repr_char q) s') @ q # y
           \<Longrightarrow> s = s' \<and> x = y"
proof (induction s arbitrary: s')
  case Nil
  show ?case
  proof (cases s')
    case Nil
    with Nil.prems show ?thesis by simp
  next
    case (Cons c cs)
    obtain h t where "repr_char q c = h # t" "h \<noteq> q"
      using repr_char_hd [OF assms] by blast
    with Nil.prems Cons show ?thesis by simp
  qed
next
  case (Cons c cs)
  show ?case
  proof (cases s')
    case Nil
    obtain h t where "repr_char q c = h # t" "h \<noteq> q"
      using repr_char_hd [OF assms] by blast
    with Cons.prems Nil show ?thesis by simp
  next
    case (Cons c' cs')
    from Cons.prems have
      "repr_char q c @ (concat (map (repr_char q) cs) @ q # x) =
       repr_char q c' @ (concat (map (repr_char q) cs') @ q # y)"
      unfolding Cons by simp
    then have "c = c'"
      and "concat (map (repr_char q) cs) @ q # x = concat (map (repr_char q) cs') @ q # y"
      using repr_char_prefix_free [OF assms] by blast+
    then show ?thesis using Cons.IH Cons by simp
  qed
qed

lemma py_repr_prefix_free:
  assumes "py_repr s @ x = py_repr s' @ y"
  shows "s = s' \<and> x = y"
proof -
  from assms have q: "repr_quote s' = repr_quote s"
    by (simp add: py_repr_def)
  from assms have "concat (map (repr_char (repr_quote s)) s) @ repr_quote s # x =
      concat (map (repr_char (repr_quote s)) s') @ repr_quote s # y"
    by (simp add: py_repr_def q)
  then show ?thesis
    by (rule repr_body_prefix_free [OF repr_quote_cases])
qed

subsection \<open>The transcript determines the pairs and their order\<close>

lemma unit_prefix_free:
  assumes "repr_dict (qna_dict a) @ x = repr_dict (qna_dict b) @ y"
  shows "a = b \<and> x = y"
proof -
  from assms have "py_repr (question a) @ ('', 'answer': '' @ py_repr (answer a) @ ''}'' @ x)
      = py_repr (question b) @ ('', 'answer': '' @ py_repr (answer b) @ ''}'' @ y)"
    by (simp add: repr_dict_qna)
  then have 1: "question a = question b"
    and "'', 'answer': '' @ py_repr (answer a) @ ''}'' @ x
          = '', 'answer': '' @ py_repr (answer b) @ ''}'' @ y"
    using py_repr_prefix_free by blast+
  then have "py_repr (answer a) @ (''}'' @ x) = py_repr (answer b) @ (''}'' @ y)"
    by simp
  then have 2: "answer a = answer b" and "''}'' @ x = ''}'' @ y"
    using py_repr_prefix_free by blast+
  then show ?thesis using 1 by simp
qed

lemma unit_hd: "\<exists>t. repr_dict (qna_dict a) = CHR ''{'' # t"
  by (simp add: repr_dict_qna)

lemma joined_units_inj:
  "join '', '' (map (\<lambda>item. repr_dict (qna_dict item)) xs) @ '']''
     = join '', '' (map (\<lambda>item. repr_dict (qna_dict item)) ys) @ '']'' \<Longrightarrow> xs = ys"
proof (induction xs arbitrary: ys)
  case Nil
  show ?case
  proof (cases ys)
    case Nil
    then show ?thesis by simp
  next
    case (Cons y ys')
    obtain t where "repr_dict (qna_dict y) = CHR ''{'' # t" using unit_hd by blast
    with Nil.prems Cons show ?thesis by (cases ys') simp_all
  qed
next
  case (Cons x xs)
  show ?case
  proof (cases ys)
    case Nil
    obtain t where "repr_dict (qna_dict x) = CHR ''{'' # t" using unit_hd by blast
    with Cons.prems Nil show ?thesis by (cases xs) simp_all
  next
    case (Cons y ys')
    let ?u = "\<lambda>item. repr_dict (qna_dict item)"
    let ?r = "\<lambda>zs. (if zs = [] then [] else '', '' @ join '', '' (map ?u zs)) @ '']''"
    have j: "join '', '' (map ?u (z # zs)) @ '']'' = ?u z @ ?r zs" for z zs
      by (cases zs) simp_all
    from Cons.prems have "?u x @ ?r xs = ?u y @ ?r ys'"
      unfolding Cons j .
    then have xy: "x = y" and r: "?r xs = ?r ys'"
      using unit_prefix_free by blast+
    have "xs = ys'"
    proof (cases "xs = []")
      case True
      with r show ?thesis by (cases "ys' = []") simp_all
    next
      case False
      with r have "ys' \<noteq> []" by (cases "ys' = []") simp_all
      with r False have "join '', '' (map ?u xs) @ '']'' = join '', '' (map ?u ys') @ '']''"
        by simp
      then show ?thesis by (rule Cons.IH)
    qed
    with xy Cons show ?thesis by simp
  qed
qed

lemma transcript_inj:
  assumes "py_str (DictList (interview_qna_list a)) = py_str (DictList (interview_qna_list b))"
  shows "interview_qna a = interview_qna b"
proof -
  from assms have
    "join '', '' (map (\<lambda>item. repr_dict (qna_dict item)) (interview_qna a)) @ '']''
       = join '', '' (map (\<lambda>item. repr_dict (qna_dict item)) (interview_qna b)) @ '']''"
    unfolding transcript_joined by simp
  then show ?thesis by (rule joined_units_inj)
qed

section \<open>The claims on the analyzer and the endpoint\<close>

text \<open>
  C1, as the code has it. The endpoint hands the analyzer a list of dictionaries, and the
  template renders it with \<open>str\<close>: the transcript block is the bracketed list of the units
  \<open>{'question': repr(q), 'answer': repr(a)}\<close>, one for each pair, in the order of the
  request and separated by a comma and a space. The units carry no number and no
  \<open>Question:\<close> or \<open>Answer:\<close> label. This block is part of the prompt sent to the backend,
  and it determines the sequence of pairs: two requests with the same transcript have
  the same pairs in the same order, so nothing is reordered, merged or dropped.
\<close>

theorem transcript_is_list_repr:
  "py_str (DictList (interview_qna_list inp)) =
     ''['' @ join '', ''
       (map (\<lambda>item. ''{'question': '' @ py_repr (question item) @ '', 'answer': ''
                      @ py_repr (answer item) @ ''}'') (interview_qna inp)) @ '']''
   \<and> (\<exists>pre post.
        map snd (calls (backend (snd (get_summary L inp
          \<lparr>analyzer = HRInterviewAnalyzer_init L mn mot temp, backend = w\<rparr>)))) =
        map snd (calls w) @ [pre @ py_str (DictList (interview_qna_list inp)) @ post])
   \<and> (\<forall>inp'. py_str (DictList (interview_qna_list inp')) = py_str (DictList (interview_qna_list inp))
         \<longrightarrow> interview_qna inp' = interview_qna inp)"
proof -
  let ?self = "HRInterviewAnalyzer_init L mn mot temp"
  let ?s = "\<lparr>analyzer = ?self, backend = w\<rparr>"
  let ?t = "py_str (DictList (interview_qna_list inp))"
  obtain pre post where p: "input_data (analyzer ?s) (job_title inp) (company_name inp)
      (candidate_name inp) (DictList (interview_qna_list inp)) = Inr (pre @ ?t @ post)"
    using input_data_init_transcript [of L mn mot temp "job_title inp" "company_name inp"
        "candidate_name inp" "DictList (interview_qna_list inp)"]
    by auto
  have "map snd (calls (backend (snd (get_summary L inp ?s)))) =
          map snd (calls w) @ [pre @ ?t @ post]"
    by (simp add: get_summary_state [OF p])
  then show ?thesis using transcript_units transcript_inj by blast
qed

theorem transcript_is_list_repr_witness:
  "py_str (DictList (interview_qna_list jane)) =
     ''[{'question': 'Tell me about yourself', 'answer': 'I am a backend engineer with 5 years experience.'}]''
   \<and> py_str (DictList (interview_qna_list (jane\<lparr>interview_qna :=
          [\<lparr>question = ''Q1'', answer = ''A1''\<rparr>, \<lparr>question = ''Q2'', answer = ''A2''\<rparr>]\<rparr>)))
     \<noteq> py_str (DictList (interview_qna_list (jane\<lparr>interview_qna :=
          [\<lparr>question = ''Q2'', answer = ''A2''\<rparr>, \<lparr>question = ''Q1'', answer = ''A1''\<rparr>]\<rparr>)))"
proof -
  note c1 = transcript_is_list_repr [of jane stub_langchain "''code-bison''" 1000 "3 / 10"
      failing_world]
  have "py_str (DictList (interview_qna_list jane)) =
     ''[{'question': 'Tell me about yourself', 'answer': 'I am a backend engineer with 5 years experience.'}]''"
    unfolding conjunct1 [OF c1]
    by (simp add: jane_def py_repr_def repr_quote_def squote_def dquote_def repr_char_def
        isprintable_def backslash_def)
  moreover have "py_str (DictList (interview_qna_list (jane\<lparr>interview_qna :=
          [\<lparr>question = ''Q1'', answer = ''A1''\<rparr>, \<lparr>question = ''Q2'', answer = ''A2''\<rparr>]\<rparr>)))
     \<noteq> py_str (DictList (interview_qna_list (jane\<lparr>interview_qna :=
          [\<lparr>question = ''Q2'', answer = ''A2''\<rparr>, \<lparr>question = ''Q1'', answer = ''A1''\<rparr>]\<rparr>)))"
    using conjunct2 [OF conjunct2 [OF transcript_is_list_repr
          [of "jane\<lparr>interview_qna :=
            [\<lparr>question = ''Q2'', answer = ''A2''\<rparr>, \<lparr>question = ''Q1'', answer = ''A1''\<rparr>]\<rparr>"]]]
    by fastforce
  ultimately show ?thesis by blast
qed

text \<open>
  C1 as it is written fails on the request with the single pair \<open>Q1\<close>, \<open>A1\<close>: the
  transcript is the text \<open>[{'question': 'Q1', 'answer': 'A1'}]\<close>. It has neither
  \<open>Question: \<close> nor \<open>Answer: \<close> in it, and the fifteen characters before \<open>Q1\<close> hold no
  index \<open>1\<close>.
\<close>

theorem transcript_not_numbered_units:
  "py_str (DictList (interview_qna_list
      \<lparr>candidate_name = ''Jane Doe'', job_title = ''Backend Engineer'', company_name = ''Acme'',
       interview_qna = [\<lparr>question = ''Q1'', answer = ''A1''\<rparr>]\<rparr>))
     = ''[{'question': 'Q1', 'answer': 'A1'}]''
   \<and> \<not> sublist ''Question: '' (py_str (DictList (interview_qna_list
      \<lparr>candidate_name = ''Jane Doe'', job_title = ''Backend Engineer'', company_name = ''Acme'',
       interview_qna = [\<lparr>question = ''Q1'', answer = ''A1''\<rparr>]\<rparr>)))
   \<and> \<not> sublist ''Answer: '' (py_str (DictList (interview_qna_list
      \<lparr>candidate_name = ''Jane Doe'', job_title = ''Backend Engineer'', company_name = ''Acme'',
       interview_qna = [\<lparr>question = ''Q1'', answer = ''A1''\<rparr>]\<rparr>)))
   \<and> CHR ''1'' \<notin> set (take 15 (py_str (DictList (interview_qna_list
      \<lparr>candidate_name = ''Jane Doe'', job_title = ''Backend Engineer'', company_name = ''Acme'',
       interview_qna = [\<lparr>question = ''Q1'', answer = ''A1''\<rparr>]\<rparr>))))
   \<and> take 2 (drop 15 (py_str (DictList (interview_qna_list
      \<lparr>candidate_name = ''Jane Doe'', job_title = ''Backend Engineer'', company_name = ''Acme'',
       interview_qna = [\<lparr>question = ''Q1'', answer = ''A1''\<rparr>]\<rparr>)))) = ''Q1''"
proof -
  have t: "py_str (DictList (interview_qna_list
      \<lparr>candidate_name = ''Jane Doe'', job_title = ''Backend Engineer'', company_name = ''Acme'',
       interview_qna = [\<lparr>question = ''Q1'', answer = ''A1''\<rparr>]\<rparr>))
     = ''[{'question': 'Q1', 'answer': 'A1'}]''"
    unfolding transcript_units
    by (simp add: py_repr_def repr_quote_def squote_def dquote_def repr_char_def
        isprintable_def backslash_def)
  show ?thesis
    unfolding t by (simp add: sublist_code)
qed

text \<open>
  C4: when the call of the model backend raises, \<open>analyze_interview\<close> ends with that
  failure, which is a \<open>BackendFailure\<close> and so never a \<open>ParseFailure\<close>; the parser is not
  consulted, and the log of outbound calls has grown by the one failed call: nothing is
  tried again.
\<close>

theorem backend_failure_propagates:
  assumes "input_data self jt cn cand qna = Inr p"
    and "reply w (length (calls w)) (llm self) p = Inl m"
  shows "analyze_interview L self jt cn cand qna w =
           (Inl (BackendFailure m), w\<lparr>calls := calls w @ [(llm self, p)]\<rparr>)
         \<and> (\<forall>reason raw_text. fst (analyze_interview L self jt cn cand qna w)
               \<noteq> Inl (ParseFailure reason raw_text))"
  using assms by (simp add: analyze_interview_sent)

theorem backend_failure_propagates_witness:
  "fst (analyze_interview stub_langchain (HRInterviewAnalyzer_default stub_langchain)
          ''Backend Engineer'' ''Acme'' ''Jane Doe'' (Str ''Q and A'') failing_world)
     = Inl (BackendFailure ''quota exceeded'')
   \<and> length (calls (snd (analyze_interview stub_langchain (HRInterviewAnalyzer_default stub_langchain)
          ''Backend Engineer'' ''Acme'' ''Jane Doe'' (Str ''Q and A'') failing_world))) = 1"
proof -
  let ?self = "HRInterviewAnalyzer_default stub_langchain"
  obtain p where p: "input_data ?self ''Backend Engineer'' ''Acme'' ''Jane Doe'' (Str ''Q and A'') = Inr p"
    unfolding HRInterviewAnalyzer_default_def using input_data_init_ex by blast
  have r: "reply failing_world (length (calls failing_world)) (llm ?self) p = Inl ''quota exceeded''"
    by (simp add: failing_world_def)
  show ?thesis
    using backend_failure_propagates [OF p r, of stub_langchain]
    by (simp add: failing_world_def)
qed

text \<open>
  C5: the format instructions are computed once, when the analyzer is built, and stored
  as the partial variable of the prompt template. Every call of \<open>analyze_interview\<close>,
  whatever its arguments, puts this stored text into its prompt, and does not evaluate
  the method again: replacing the method after construction changes no call.
\<close>

theorem format_instructions_computed_once:
  "partial_variables (prompt_template (HRInterviewAnalyzer_init L mn mot temp)) =
     [(''format_instructions'', get_format_instructions L \<lparr>pydantic_object = QNASummary_fields\<rparr>)]
   \<and> (\<exists>pre post. input_data (HRInterviewAnalyzer_init L mn mot temp) jt cn cand qna =
         Inr (pre @ get_format_instructions L \<lparr>pydantic_object = QNASummary_fields\<rparr> @ post))
   \<and> analyze_interview (L\<lparr>get_format_instructions := g\<rparr>)
         (HRInterviewAnalyzer_init L mn mot temp) jt cn cand qna w
       = analyze_interview L (HRInterviewAnalyzer_init L mn mot temp) jt cn cand qna w"
proof -
  let ?self = "HRInterviewAnalyzer_init L mn mot temp"
  let ?fi = "get_format_instructions L \<lparr>pydantic_object = QNASummary_fields\<rparr>"
  have 1: "partial_variables (prompt_template ?self) = [(''format_instructions'', ?fi)]"
    by (simp add: init_fields)
  have 2: "\<exists>pre post. input_data ?self jt cn cand qna = Inr (pre @ ?fi @ post)"
    by (rule input_data_init_instructions)
  obtain p where p: "input_data ?self jt cn cand qna = Inr p"
    using input_data_init_ex by blast
  have 3: "analyze_interview (L\<lparr>get_format_instructions := g\<rparr>) ?self jt cn cand qna w
       = analyze_interview L ?self jt cn cand qna w"
    by (simp add: analyze_interview_sent [OF p] cong: sum.case_cong)
  from 1 2 3 show ?thesis by blast
qed

theorem format_instructions_computed_once_witness:
  "partial_variables (prompt_template (HRInterviewAnalyzer_default stub_langchain)) =
     [(''format_instructions'', ''FORMAT'')]
   \<and> analyze_interview (stub_langchain\<lparr>get_format_instructions := (\<lambda>p. ''OTHER'')\<rparr>)
         (HRInterviewAnalyzer_default stub_langchain) ''Backend Engineer'' ''Acme'' ''Jane Doe''
         (Str ''Q and A'') unlabelled_world
       = analyze_interview stub_langchain
         (HRInterviewAnalyzer_default stub_langchain) ''Backend Engineer'' ''Acme'' ''Jane Doe''
         (Str ''Q and A'') unlabelled_world"
  using format_instructions_computed_once [of stub_langchain "''code-bison''" 1000 "3 / 10"
      "''Backend Engineer''" "''Acme''" "''Jane Doe''" "Str ''Q and A''" "\<lambda>p. ''OTHER''"
      unlabelled_world]
  by (simp add: HRInterviewAnalyzer_default_def stub_langchain_def)



text \<open>
  C7: a call of \<open>analyze_interview\<close> on an analyzer built by \<open>__init__\<close> adds exactly one
  entry to the log of outbound calls, made with the analyzer's own configuration, and
  changes nothing else of the backend. The endpoint leaves the analyzer as it was, and
  so does any run of requests, which makes one outbound call for each request.
\<close>

theorem analyze_one_call_frame:
  "(\<exists>p. input_data (HRInterviewAnalyzer_init L mn mot temp) jt cn cand qna = Inr p \<and>
        snd (analyze_interview L (HRInterviewAnalyzer_init L mn mot temp) jt cn cand qna w) =
          w\<lparr>calls := calls w @ [(llm (HRInterviewAnalyzer_init L mn mot temp), p)]\<rparr>)
   \<and> analyzer (snd (get_summary L inp \<lparr>analyzer = HRInterviewAnalyzer_init L mn mot temp, backend = w\<rparr>))
       = HRInterviewAnalyzer_init L mn mot temp
   \<and> analyzer (snd (serve L rs \<lparr>analyzer = HRInterviewAnalyzer_init L mn mot temp, backend = w\<rparr>))
       = HRInterviewAnalyzer_init L mn mot temp
   \<and> reply (backend (snd (serve L rs \<lparr>analyzer = HRInterviewAnalyzer_init L mn mot temp, backend = w\<rparr>)))
       = reply w
   \<and> length (calls (backend (snd (serve L rs \<lparr>analyzer = HRInterviewAnalyzer_init L mn mot temp, backend = w\<rparr>))))
       = length (calls w) + length rs"
proof -
  let ?self = "HRInterviewAnalyzer_init L mn mot temp"
  let ?s = "\<lparr>analyzer = ?self, backend = w\<rparr>"
  obtain p where p: "input_data ?self jt cn cand qna = Inr p"
    using input_data_init_ex by blast
  have 1: "\<exists>p. input_data ?self jt cn cand qna = Inr p \<and>
        snd (analyze_interview L ?self jt cn cand qna w) = w\<lparr>calls := calls w @ [(llm ?self, p)]\<rparr>"
    using p by (auto simp: analyze_interview_sent [OF p])
  have a: "analyzer ?s = HRInterviewAnalyzer_init L mn mot temp" by simp
  have 2: "analyzer (snd (get_summary L inp ?s)) = ?self"
    using serve_state [OF a, of L "[inp]"] by (simp split: prod.splits)
  have 3: "analyzer (snd (serve L rs ?s)) = ?self"
    using serve_state [OF a, of L rs] by simp
  have 4: "reply (backend (snd (serve L rs ?s))) = reply w"
    using serve_state [OF a, of L rs] by simp
  have "length (map fst (calls (backend (snd (serve L rs ?s))))) = length (calls w) + length rs"
    using serve_state [OF a, of L rs] by simp
  then have 5: "length (calls (backend (snd (serve L rs ?s)))) = length (calls w) + length rs"
    by simp
  from 1 2 3 4 5 show ?thesis by blast
qed

theorem analyze_one_call_frame_witness:
  "analyzer (snd (serve stub_langchain [jane, jane] (app_init stub_langchain unlabelled_world)))
     = HRInterviewAnalyzer_default stub_langchain
   \<and> length (calls (backend (snd (serve stub_langchain [jane, jane]
        (app_init stub_langchain unlabelled_world))))) = 2"
  using analyze_one_call_frame [of stub_langchain "''code-bison''" 1000 "3 / 10" _ _ _ _
      unlabelled_world _ "[jane, jane]"]
  by (simp add: app_init_def HRInterviewAnalyzer_default_def unlabelled_world_def)

text \<open>
  C8: the prompt of a call is one string: the fixed template with the job title, the
  company name, the candidate name, the format instructions and the rendered transcript
  put in the place of their fields, each copied as it is. It depends on nothing but the
  arguments of the call and the fixed template and instructions, and it is the prompt of
  the one outbound call.
\<close>

theorem prompt_is_template_substitution:
  "input_data (HRInterviewAnalyzer_init L mn mot temp) jt cn cand qna =
    Inr (nl @ ''            Here is a transcript of an HR interview for the '' @ jt
     @ '' position at '' @ cn @ ''. The candidate is '' @ cand
     @ ''. Please analyze the interview and provide a bulleted summary with the following sections:''
     @ nl @ ''            '' @ get_format_instructions L \<lparr>pydantic_object = QNASummary_fields\<rparr>
     @ nl @ ''            ---''
     @ nl
     @ nl @ ''            '' @ py_str qna
     @ nl
     @ nl @ ''            ---''
     @ nl @ ''            '')
   \<and> map (\<lambda>c. Inr (snd c))
         (calls (snd (analyze_interview L (HRInterviewAnalyzer_init L mn mot temp) jt cn cand qna w)))
       = map (\<lambda>c. Inr (snd c)) (calls w)
           @ [input_data (HRInterviewAnalyzer_init L mn mot temp) jt cn cand qna]"
proof -
  obtain p where p: "input_data (HRInterviewAnalyzer_init L mn mot temp) jt cn cand qna = Inr p"
    using input_data_init_ex by blast
  show ?thesis
    using input_data_init [of L mn mot temp jt cn cand qna]
    by (simp add: analyze_interview_sent [OF p] p)
qed

theorem prompt_is_template_substitution_witness:
  "input_data (HRInterviewAnalyzer_default stub_langchain) ''Backend Engineer'' ''Acme''
     ''Jane Doe'' (Str ''{braces} stay'') =
    Inr (nl @ ''            Here is a transcript of an HR interview for the Backend Engineer position at Acme. The candidate is Jane Doe. Please analyze the interview and provide a bulleted summary with the following sections:''
     @ nl @ ''            FORMAT''
     @ nl @ ''            ---''
     @ nl
     @ nl @ ''            {braces} stay''
     @ nl
     @ nl @ ''            ---''
     @ nl @ ''            '')"
  using prompt_is_template_substitution [of stub_langchain "''code-bison''" 1000 "3 / 10"
      "''Backend Engineer''" "''Acme''" "''Jane Doe''" "Str ''{braces} stay''" failing_world]
  by (simp add: HRInterviewAnalyzer_default_def stub_langchain_def)

text \<open>
  C9: whenever the analysis inside the handler of \<open>/get_summary\<close> ends with an exception,
  of the backend or of the parser alike, the endpoint answers with an \<open>HTTPException\<close> of
  status 500 whose detail is the text of that exception.
\<close>

theorem get_summary_error_500:
  assumes "fst (analyze_interview L (analyzer s) (job_title inp) (company_name inp)
             (candidate_name inp) (DictList (interview_qna_list inp)) (backend s)) = Inl e"
  shows "fst (get_summary L inp s) = Inl \<lparr>status_code = 500, detail = str_exn e\<rparr>"
  using assms by (auto simp add: get_summary_def split: prod.splits sum.splits)

theorem get_summary_error_500_witness:
  "fst (get_summary stub_langchain jane (app_init stub_langchain failing_world))
     = Inl \<lparr>status_code = 500, detail = ''quota exceeded''\<rparr>
   \<and> fst (get_summary stub_langchain jane (app_init stub_langchain unlabelled_world))
     = Inl \<lparr>status_code = 500, detail = ''Failed to parse''\<rparr>"
proof -
  let ?self = "HRInterviewAnalyzer_default stub_langchain"
  obtain p where p: "input_data ?self (job_title jane) (company_name jane) (candidate_name jane)
      (DictList (interview_qna_list jane)) = Inr p"
    unfolding HRInterviewAnalyzer_default_def using input_data_init_ex by blast
  have 1: "fst (analyze_interview stub_langchain (analyzer (app_init stub_langchain failing_world))
      (job_title jane) (company_name jane) (candidate_name jane)
      (DictList (interview_qna_list jane)) (backend (app_init stub_langchain failing_world)))
      = Inl (BackendFailure ''quota exceeded'')"
    by (simp add: app_init_def analyze_interview_sent [OF p] failing_world_def)
  have 2: "fst (analyze_interview stub_langchain (analyzer (app_init stub_langchain unlabelled_world))
      (job_title jane) (company_name jane) (candidate_name jane)
      (DictList (interview_qna_list jane)) (backend (app_init stub_langchain unlabelled_world)))
      = Inl (ParseFailure ''Failed to parse'' ''Sorry, I cannot help.'')"
    by (simp add: app_init_def analyze_interview_sent [OF p] unlabelled_world_def)
      (simp add: stub_langchain_def)
  show ?thesis
    using get_summary_error_500 [OF 1] get_summary_error_500 [OF 2] by simp
qed

text \<open>
  C10: \<open>HRInterviewAnalyzer()\<close> fixes the model name \<open>code-bison\<close>, 1000 output tokens and
  the temperature 0.3. The application holds the analyzer built this way, and every
  outbound call of a run of requests is made with exactly this configuration.
\<close>

theorem default_configuration:
  "llm (HRInterviewAnalyzer_default L) =
     \<lparr>model_name = ''code-bison'', max_output_tokens = 1000, temperature = 3 / 10\<rparr>
   \<and> analyzer (app_init L w) = HRInterviewAnalyzer_default L
   \<and> map fst (calls (backend (snd (serve L rs (app_init L w))))) =
       map fst (calls w) @ replicate (length rs)
         \<lparr>model_name = ''code-bison'', max_output_tokens = 1000, temperature = 3 / 10\<rparr>"
proof -
  have a: "analyzer (app_init L w) = HRInterviewAnalyzer_init L ''code-bison'' 1000 (3 / 10)"
    by (simp add: app_init_def HRInterviewAnalyzer_default_def)
  show ?thesis
    using serve_state [OF a, of L rs]
    by (simp add: app_init_def HRInterviewAnalyzer_default_def init_fields)
qed

theorem default_configuration_witness:
  "map fst (calls (backend (snd (serve stub_langchain [jane, jane]
        (app_init stub_langchain failing_world))))) =
     [\<lparr>model_name = ''code-bison'', max_output_tokens = 1000, temperature = 3 / 10\<rparr>,
      \<lparr>model_name = ''code-bison'', max_output_tokens = 1000, temperature = 3 / 10\<rparr>]"
  using default_configuration [of stub_langchain failing_world "[jane, jane]"]
  by (simp add: failing_world_def)

section \<open>The parser of the Schema Descriptor: lines and labels\<close>

lemma split_lines_nonempty: "split_lines s \<noteq> []"
  by (induction s) (auto split: list.splits)

lemma split_lines_line:
  "CHR 0x0A \<notin> set l \<Longrightarrow> split_lines l = [l]"
  by (induction l) (auto split: list.splits)

lemma split_lines_append:
  "CHR 0x0A \<notin> set l \<Longrightarrow> split_lines (l @ CHR 0x0A # rest) = l # split_lines rest"
  by (induction l) (auto split: list.splits simp: split_lines_nonempty)

lemma split_lines_join:
  "ls \<noteq> [] \<Longrightarrow> \<forall>l \<in> set ls. CHR 0x0A \<notin> set l \<Longrightarrow> split_lines (join nl ls) = ls"
  by (induction ls rule: induct_list012) (simp_all add: split_lines_line split_lines_append nl_def)

lemma lookup_label_found:
  "l @ '': '' @ c \<in> set ls \<Longrightarrow> \<forall>x \<in> set ls. prefix (l @ '': '') x \<longrightarrow> x = l @ '': '' @ c
     \<Longrightarrow> lookup_label l ls = Some c"
proof (induction ls)
  case Nil
  then show ?case by simp
next
  case (Cons x xs)
  show ?case
  proof (cases "prefix (l @ '': '') x")
    case True
    with Cons.prems have "x = l @ '': '' @ c" by simp
    then show ?thesis by (simp add: labelled_def)
  next
    case False
    then have "labelled l x = None" by (simp add: labelled_def)
    moreover from False Cons.prems have "l @ '': '' @ c \<in> set xs" by auto
    ultimately show ?thesis using Cons by simp
  qed
qed

lemma lookup_label_missing:
  "\<forall>x \<in> set ls. \<not> prefix (l @ '': '') x \<Longrightarrow> lookup_label l ls = None"
  by (induction ls) (auto simp: labelled_def)

lemma required_field_failure:
  "required_field raw l = Inl e \<Longrightarrow> e = ParseFailure (''missing field '' @ l) raw"
  by (auto simp: required_field_def split: option.splits)

lemma and_then_Inl:
  "and_then x f = Inl e \<longleftrightarrow> x = Inl e \<or> (\<exists>v. x = Inr v \<and> f v = Inl e)"
  by (cases x) auto

lemma and_then_Inr:
  "and_then x f = Inr r \<longleftrightarrow> (\<exists>v. x = Inr v \<and> f v = Inr r)"
  by (cases x) auto

lemma spec_parse_failure:
  "spec_parse raw = Inl e \<Longrightarrow> \<exists>reason. e = ParseFailure reason raw"
  unfolding spec_parse_def and_then_Inl
  by (auto dest: required_field_failure)

lemma spec_parse_success_fields:
  assumes "spec_parse raw = Inr r" and "l \<in> set spec_field_order"
  shows "\<exists>c. required_field raw l = Inr c"
  using assms unfolding spec_parse_def and_then_Inr spec_field_order_def
  by auto

lemma labelled_lines_unfold:
  "labelled_lines r =
    [''name: '' @ name r,
     ''overall_impression: '' @ overall_impression r,
     ''chance_of_getting_the_job: '' @ chance_of_getting_the_job r,
     ''most_relevant_position: '' @ most_relevant_position r,
     ''personal_capability: '' @ personal_capability r,
     ''psychological_capability: '' @ psychological_capability r,
     ''technical_capability: '' @ technical_capability r,
     ''final_thoughts: '' @ final_thoughts r]"
  by (simp add: labelled_lines_def dict_def)

lemma required_field_found:
  assumes "split_lines raw = ls" and "set ls = set (labelled_lines r)"
    and "(l, c) \<in> set (dict r)"
  shows "required_field raw l = Inr c"
proof -
  have m: "l @ '': '' @ c \<in> set ls"
    using assms(2,3) by (force simp: labelled_lines_def)
  have u: "\<forall>x \<in> set ls. prefix (l @ '': '') x \<longrightarrow> x = l @ '': '' @ c"
    using assms(3) unfolding assms(2) labelled_lines_unfold
    by (auto simp: dict_def)
  show ?thesis
    by (simp add: required_field_def assms(1) lookup_label_found [OF m u])
qed

text \<open>
  C2: on a response in which a required field is missing (some label starts no line,
  as in a text that is not in the labelled format at all), \<open>parse\<close> ends with a
  \<open>ParseFailure\<close> that carries the raw text; and whenever \<open>parse\<close> fails, the failure is
  a \<open>ParseFailure\<close> carrying the raw text. A failure is a result of its own: there is no
  summary in it, filled or half filled.
\<close>

theorem parse_failure_on_missing_field:
  "(missing_field raw \<longrightarrow> (\<exists>reason. spec_parse raw = Inl (ParseFailure reason raw)))
   \<and> (\<forall>e. spec_parse raw = Inl e \<longrightarrow> (\<exists>reason. e = ParseFailure reason raw))"
proof -
  have "\<exists>reason. spec_parse raw = Inl (ParseFailure reason raw)" if "missing_field raw"
  proof -
    from that obtain l where l: "l \<in> set spec_field_order"
      and none: "\<forall>x \<in> set (split_lines raw). \<not> prefix (l @ '': '') x"
      unfolding missing_field_def by blast
    have "required_field raw l = Inl (ParseFailure (''missing field '' @ l) raw)"
      by (simp add: required_field_def lookup_label_missing [OF none])
    then have "\<not> (\<exists>r. spec_parse raw = Inr r)"
      using spec_parse_success_fields [OF _ l] by fastforce
    then obtain e where "spec_parse raw = Inl e"
      by (cases "spec_parse raw") auto
    then show ?thesis using spec_parse_failure by blast
  qed
  then show ?thesis using spec_parse_failure by blast
qed

theorem parse_failure_on_missing_field_witness:
  "missing_field ''Sorry, I cannot help.''
   \<and> spec_parse ''Sorry, I cannot help.''
       = Inl (ParseFailure ''missing field name'' ''Sorry, I cannot help.'')"
proof -
  have m: "missing_field ''Sorry, I cannot help.''"
    by (simp add: missing_field_def spec_field_order_def)
  have "spec_parse ''Sorry, I cannot help.''
       = Inl (ParseFailure ''missing field name'' ''Sorry, I cannot help.'')"
    by (simp add: spec_parse_def required_field_def labelled_def)
  then show ?thesis
    using m parse_failure_on_missing_field [of "''Sorry, I cannot help.''"] by simp
qed

text \<open>
  C3: a well-formed response holds the eight labelled lines, each a label, a colon and a
  space, and the content up to the end of the line, in any order. On it \<open>parse\<close> returns
  the summary whose eight fields are the eight contents, character for character.
\<close>

theorem parse_extracts_fields_exactly:
  assumes "mset ls = mset (labelled_lines r)"
    and "\<forall>kv \<in> set (dict r). CHR 0x0A \<notin> set (snd kv)"
  shows "spec_parse (join nl ls) = Inr r"
proof -
  have s: "set ls = set (labelled_lines r)"
    using assms(1) by (rule mset_eq_setD)
  have "length ls = length (labelled_lines r)"
    using assms(1) by (rule mset_eq_length)
  then have ne: "ls \<noteq> []" by (auto simp: labelled_lines_unfold)
  have nf: "\<forall>l \<in> set ls. CHR 0x0A \<notin> set l"
    using assms(2) unfolding s labelled_lines_unfold by (simp add: dict_def)
  have sp: "split_lines (join nl ls) = ls"
    by (rule split_lines_join [OF ne nf])
  note f = required_field_found [OF sp s]
  have "spec_parse (join nl ls) =
      Inr \<lparr>name = name r, overall_impression = overall_impression r,
           chance_of_getting_the_job = chance_of_getting_the_job r,
           most_relevant_position = most_relevant_position r,
           personal_capability = personal_capability r,
           psychological_capability = psychological_capability r,
           technical_capability = technical_capability r,
           final_thoughts = final_thoughts r\<rparr>"
    unfolding spec_parse_def
    by (simp add: f dict_def)
  then show ?thesis by simp
qed

theorem parse_extracts_fields_exactly_witness:
  "spec_parse (join nl (rev (labelled_lines stub_summary))) = Inr stub_summary"
proof -
  have 1: "mset (rev (labelled_lines stub_summary)) = mset (labelled_lines stub_summary)"
    by simp
  have 2: "\<forall>kv \<in> set (dict stub_summary). CHR 0x0A \<notin> set (snd kv)"
    by (simp add: dict_def stub_summary_def)
  show ?thesis
    by (rule parse_extracts_fields_exactly [OF 1 2])
qed

end
